theory Spec2Isabelle
  imports Main
begin

section \<open>Python strings\<close>

text \<open>
  A Python \<open>str\<close> is a sequence of code points. The model is \<^typ>\<open>string\<close>, whose
  characters are the code points below 256 (ASCII and Latin-1), so that \<open>length\<close> is
  Python's \<open>len\<close>. The character classes below are the ones CPython's \<open>str\<close>
  methods consult, restricted to that range (no code point below 256 is title case).
\<close>

definition Py_UNICODE_ISSPACE :: "char \<Rightarrow> bool" where
  "Py_UNICODE_ISSPACE c =
     (let n = (of_char c :: nat)
      in (9 \<le> n \<and> n \<le> 13) \<or> (28 \<le> n \<and> n \<le> 32) \<or> n = 133 \<or> n = 160)"

definition Py_UNICODE_ISUPPER :: "char \<Rightarrow> bool" where
  "Py_UNICODE_ISUPPER c =
     (let n = (of_char c :: nat)
      in (65 \<le> n \<and> n \<le> 90) \<or> (192 \<le> n \<and> n \<le> 214) \<or> (216 \<le> n \<and> n \<le> 222))"

definition Py_UNICODE_ISLOWER :: "char \<Rightarrow> bool" where
  "Py_UNICODE_ISLOWER c =
     (let n = (of_char c :: nat)
      in (97 \<le> n \<and> n \<le> 122) \<or> n = 170 \<or> n = 181 \<or> n = 186
         \<or> (223 \<le> n \<and> n \<le> 246) \<or> (248 \<le> n \<and> n \<le> 255))"

text \<open>\<open>s.strip()\<close>: leading and trailing whitespace removed.\<close>

definition strip :: "string \<Rightarrow> string" where
  "strip s = rev (dropWhile Py_UNICODE_ISSPACE (rev (dropWhile Py_UNICODE_ISSPACE s)))"

text \<open>
  \<open>s.split()\<close>: the maximal runs of non-whitespace characters, in order. The second
  argument is the run being read.
\<close>

fun split_whitespace :: "string \<Rightarrow> string \<Rightarrow> string list" where
  "split_whitespace [] cur = (if cur = [] then [] else [cur])"
| "split_whitespace (c # cs) cur =
     (if Py_UNICODE_ISSPACE c
      then (if cur = [] then split_whitespace cs [] else cur # split_whitespace cs [])
      else split_whitespace cs (cur @ [c]))"

definition split :: "string \<Rightarrow> string list" where
  "split s = split_whitespace s []"

text \<open>
  \<open>s.split(sep)\<close> for a one-character separator: the pieces between the separators,
  empty pieces kept, so the result is never empty.
\<close>

fun split_sep :: "char \<Rightarrow> string \<Rightarrow> string \<Rightarrow> string list" where
  "split_sep sep [] cur = [cur]"
| "split_sep sep (c # cs) cur =
     (if c = sep then cur # split_sep sep cs [] else split_sep sep cs (cur @ [c]))"

definition newline :: char where
  "newline = CHR 0x0A"

definition split_lines :: "string \<Rightarrow> string list" where
  "split_lines s = split_sep newline s []"

text \<open>
  \<open>s.isupper()\<close>: no lower-case character and at least one upper-case one. The loop
  of CPython, with its early return; \<open>cased\<close> is its flag.
\<close>

fun isupper_loop :: "string \<Rightarrow> bool \<Rightarrow> bool" where
  "isupper_loop [] cased = cased"
| "isupper_loop (c # cs) cased =
     (if Py_UNICODE_ISLOWER c then False
      else if \<not> cased \<and> Py_UNICODE_ISUPPER c then isupper_loop cs True
      else isupper_loop cs cased)"

definition isupper :: "string \<Rightarrow> bool" where
  "isupper s = isupper_loop s False"

text \<open>
  \<open>s.istitle()\<close>: upper-case characters may only follow uncased characters and
  lower-case characters only cased ones, and there is a cased character. The loop of
  CPython with its two flags.
\<close>

fun istitle_loop :: "string \<Rightarrow> bool \<Rightarrow> bool \<Rightarrow> bool" where
  "istitle_loop [] cased previous_is_cased = cased"
| "istitle_loop (c # cs) cased previous_is_cased =
     (if Py_UNICODE_ISUPPER c
      then (if previous_is_cased then False else istitle_loop cs True True)
      else if Py_UNICODE_ISLOWER c
      then (if \<not> previous_is_cased then False else istitle_loop cs True True)
      else istitle_loop cs cased False)"

definition istitle :: "string \<Rightarrow> bool" where
  "istitle s = istitle_loop s False False"

section \<open>Data model\<close>

text \<open>
  The dictionaries of the script have fixed keys; each is a record. A table grid is a
  list of rows of cells, and a cell the backend could not read is \<open>None\<close>. Page
  dimensions are numbers of the backend (type \<open>'d\<close>) and are present only in the
  pages of the primary path. Python's integers are \<^typ>\<open>int\<close>.
\<close>

type_synonym table = "string option list list"

record 'd PageRecord =
  page_number :: int
  page_text :: string
  tables :: "table list"
  width :: "'d option"
  height :: "'d option"

record 'd DocumentRecord =
  total_pages :: int
  full_text :: string
  pages :: "'d PageRecord list"

record document_stats =
  stats_total_pages :: int
  word_count :: int
  character_count :: int
  paragraph_count :: int
  table_count :: int

record content_structure =
  headings :: "string list"
  paragraphs :: "string list"
  structure_tables :: "table list"

record 't metadata =
  extraction_method :: string
  processing_timestamp :: 't

record 't StructureSummary =
  document_stats :: document_stats
  content_structure :: content_structure
  metadata :: "'t metadata"

section \<open>The PDF backends\<close>

text \<open>
  The two libraries are outside the script. What the script sees of a file is what each
  call returns or raises, so a file is modelled by these outcomes: opening it with
  either library succeeds or raises, and so does each call on a page. Every error the
  libraries raise is an \<open>Exception\<close>, which is what the handlers of the script catch.
  A page of the primary backend returns its text or \<open>None\<close>, and its tables; a page of
  the fallback backend returns its text, and a result that cannot be joined to a string
  raises in the same statement, so it counts as raising.
\<close>

datatype py_exception = Exception string

record 'd plumber_page =
  extract_text :: "py_exception + string option"
  extract_tables :: "py_exception + table list"
  plumber_width :: 'd
  plumber_height :: 'd

record 'd pdf_file =
  pdfplumber_open :: "py_exception + 'd plumber_page list"
  PdfReader_pages :: "py_exception + (py_exception + string) list"

section \<open>extract\_text\_with\_pypdf2\<close>

text \<open>The loop over \<open>pdf_reader.pages\<close>, with the text read so far.\<close>

fun pypdf2_loop :: "(py_exception + string) list \<Rightarrow> string \<Rightarrow> py_exception + string" where
  "pypdf2_loop [] text = Inr text"
| "pypdf2_loop (page # rest) text =
     (case page of
        Inl e \<Rightarrow> Inl e
      | Inr t \<Rightarrow> pypdf2_loop rest (text @ t @ [newline]))"

text \<open>The body of the \<open>try\<close>.\<close>

definition pypdf2_try :: "'d pdf_file \<Rightarrow> py_exception + string" where
  "pypdf2_try pdf_path =
     (case PdfReader_pages pdf_path of
        Inl e \<Rightarrow> Inl e
      | Inr reader_pages \<Rightarrow> pypdf2_loop reader_pages [])"

definition extract_text_with_pypdf2 :: "'d pdf_file \<Rightarrow> string" where
  "extract_text_with_pypdf2 pdf_path =
     (case pypdf2_try pdf_path of
        Inl e \<Rightarrow> []
      | Inr text \<Rightarrow> text)"

section \<open>extract\_text\_with\_pdfplumber\<close>

text \<open>
  The loop over \<open>enumerate(pdf.pages, 1)\<close>: the page number, the pages left, and the
  pair of \<open>total_text\<close> and \<open>pages_data\<close>.
\<close>

fun pdfplumber_loop ::
  "int \<Rightarrow> 'd plumber_page list \<Rightarrow> string \<times> 'd PageRecord list
     \<Rightarrow> py_exception + string \<times> 'd PageRecord list" where
  "pdfplumber_loop page_num [] (total_text, pages_data) = Inr (total_text, pages_data)"
| "pdfplumber_loop page_num (page # rest) (total_text, pages_data) =
     (case extract_text page of
        Inl e \<Rightarrow> Inl e
      | Inr r \<Rightarrow>
          (let page_text = (case r of None \<Rightarrow> [] | Some t \<Rightarrow> if t = [] then [] else t)
           in case extract_tables page of
                Inl e \<Rightarrow> Inl e
              | Inr tbls \<Rightarrow>
                  pdfplumber_loop (page_num + 1) rest
                    (total_text @ page_text @ [newline],
                     pages_data @
                       [\<lparr> page_number = page_num,
                          page_text = page_text,
                          tables = (if tbls \<noteq> [] then tbls else []),
                          width = Some (plumber_width page),
                          height = Some (plumber_height page) \<rparr>])))"

definition pdfplumber_try :: "'d pdf_file \<Rightarrow> py_exception + 'd DocumentRecord" where
  "pdfplumber_try pdf_path =
     (case pdfplumber_open pdf_path of
        Inl e \<Rightarrow> Inl e
      | Inr pdf_pages \<Rightarrow>
          (case pdfplumber_loop 1 pdf_pages ([], []) of
             Inl e \<Rightarrow> Inl e
           | Inr (total_text, pages_data) \<Rightarrow>
               Inr \<lparr> total_pages = int (length pdf_pages),
                     full_text = total_text,
                     pages = pages_data \<rparr>))"

definition extract_text_with_pdfplumber :: "'d pdf_file \<Rightarrow> 'd DocumentRecord" where
  "extract_text_with_pdfplumber pdf_path =
     (case pdfplumber_try pdf_path of
        Inl e \<Rightarrow> \<lparr> total_pages = 0, full_text = [], pages = [] \<rparr>
      | Inr pdf_data \<Rightarrow> pdf_data)"

section \<open>analyze\_document\_structure\<close>

text \<open>
  The loop over the lines: each line is stripped, an empty one skipped, and the others
  appended to \<open>headings\<close>, to \<open>paragraphs\<close> or to neither.
\<close>

fun classify_loop :: "string list \<Rightarrow> string list \<times> string list \<Rightarrow> string list \<times> string list" where
  "classify_loop [] (hs, ps) = (hs, ps)"
| "classify_loop (l # ls) (hs, ps) =
     (let line = strip l
      in if line \<noteq> []
         then (let words_in_line = split line
               in if length words_in_line \<le> 10 \<and> (isupper line \<or> istitle line)
                  then classify_loop ls (hs @ [line], ps)
                  else if length words_in_line > 10
                  then classify_loop ls (hs, ps @ [line])
                  else classify_loop ls (hs, ps))
         else classify_loop ls (hs, ps))"

text \<open>The loop over the pages that extends \<open>all_tables\<close>.\<close>

fun tables_loop :: "'d PageRecord list \<Rightarrow> table list \<Rightarrow> table list" where
  "tables_loop [] all_tables = all_tables"
| "tables_loop (page # rest) all_tables =
     (if tables page \<noteq> [] then tables_loop rest (all_tables @ tables page)
      else tables_loop rest all_tables)"

text \<open>
  \<open>now\<close> is what \<open>time.time()\<close> returns. The keys read with \<open>get\<close> are present in
  every DocumentRecord, so the defaults of \<open>get\<close> are never used.
\<close>

definition analyze_document_structure :: "'d DocumentRecord \<Rightarrow> 't \<Rightarrow> 't StructureSummary" where
  "analyze_document_structure pdf_data now =
     (if full_text pdf_data = []
      then \<lparr> document_stats =
               \<lparr> stats_total_pages = 0, word_count = 0, character_count = 0,
                 paragraph_count = 0, table_count = 0 \<rparr>,
             content_structure =
               \<lparr> headings = [], paragraphs = [], structure_tables = [] \<rparr>,
             metadata =
               \<lparr> extraction_method = ''failed'', processing_timestamp = now \<rparr> \<rparr>
      else (let wrds = split (full_text pdf_data);
                word_cnt = int (length wrds);
                char_cnt = int (length (full_text pdf_data));
                lns = split_lines (full_text pdf_data);
                (hs, ps) = classify_loop lns ([], []);
                all_tables = tables_loop (pages pdf_data) []
            in \<lparr> document_stats =
                   \<lparr> stats_total_pages = total_pages pdf_data, word_count = word_cnt,
                     character_count = char_cnt, paragraph_count = int (length ps),
                     table_count = int (length all_tables) \<rparr>,
                 content_structure =
                   \<lparr> headings = take 10 hs, paragraphs = take 5 ps,
                     structure_tables = all_tables \<rparr>,
                 metadata =
                   \<lparr> extraction_method = ''pdfplumber'', processing_timestamp = now \<rparr> \<rparr>))"

section \<open>process\_single\_pdf\<close>

text \<open>
  The extraction part of \<open>process_single_pdf\<close>: the primary path, then the fallback
  when the text is empty. The number of calls of each extraction function is returned
  with the record.
\<close>

record backend_calls =
  pdfplumber_calls :: nat
  pypdf2_calls :: nat

definition extract_pdf_data :: "'d pdf_file \<Rightarrow> 'd DocumentRecord \<times> backend_calls" where
  "extract_pdf_data pdf_path =
     (let pdf_data = extract_text_with_pdfplumber pdf_path
      in if full_text pdf_data = []
         then (let fallback_text = extract_text_with_pypdf2 pdf_path
               in (\<lparr> total_pages = 1,
                     full_text = fallback_text,
                     pages = [\<lparr> page_number = 1, page_text = fallback_text, tables = [],
                                width = None, height = None \<rparr>] \<rparr>,
                   \<lparr> pdfplumber_calls = 1, pypdf2_calls = 1 \<rparr>))
         else (pdf_data, \<lparr> pdfplumber_calls = 1, pypdf2_calls = 0 \<rparr>))"

text \<open>
  \<open>process_single_pdf\<close> up to \<open>structured_data\<close>; writing the JSON file is left out.
\<close>

definition process_single_pdf :: "'d pdf_file \<Rightarrow> 't \<Rightarrow> 't StructureSummary" where
  "process_single_pdf pdf_path now = analyze_document_structure (fst (extract_pdf_data pdf_path)) now"

section \<open>Notions used in the properties\<close>

text \<open>The lines the loop of the analyzer looks at: stripped, the empty ones left out.\<close>

definition stripped_lines :: "string \<Rightarrow> string list" where
  "stripped_lines s = filter (\<lambda>line. line \<noteq> []) (map strip (split_lines s))"

text \<open>The two tests of the loop, on a stripped line.\<close>

definition heading_candidate :: "string \<Rightarrow> bool" where
  "heading_candidate line = (length (split line) \<le> 10 \<and> (isupper line \<or> istitle line))"

definition paragraph_candidate :: "string \<Rightarrow> bool" where
  "paragraph_candidate line = (length (split line) > 10)"

text \<open>
  Title case as the specification words it: every word starts with an upper-case
  letter and the rest of the word is lower-case. It is compared with \<^const>\<open>istitle\<close>
  below.
\<close>

definition spec_title_case :: "string \<Rightarrow> bool" where
  "spec_title_case line =
     list_all (\<lambda>w. case w of
                     [] \<Rightarrow> False
                   | c # cs \<Rightarrow> Py_UNICODE_ISUPPER c \<and> list_all Py_UNICODE_ISLOWER cs)
       (split line)"

text \<open>A call of a backend raises: opening the file does, or a call on one of its pages.\<close>

definition pdfplumber_raises :: "'d pdf_file \<Rightarrow> bool" where
  "pdfplumber_raises pdf_path =
     (case pdfplumber_open pdf_path of
        Inl e \<Rightarrow> True
      | Inr pdf_pages \<Rightarrow>
          list_ex (\<lambda>page. isl (extract_text page) \<or> isl (extract_tables page)) pdf_pages)"

definition pypdf2_raises :: "'d pdf_file \<Rightarrow> bool" where
  "pypdf2_raises pdf_path =
     (case PdfReader_pages pdf_path of
        Inl e \<Rightarrow> True
      | Inr reader_pages \<Rightarrow> list_ex isl reader_pages)"

text \<open>A page of the primary backend that yields no text (\<open>None\<close> or the empty string).\<close>

definition yields_no_text :: "'d plumber_page \<Rightarrow> bool" where
  "yields_no_text page =
     ((extract_text page = Inr None \<or> extract_text page = Inr (Some []))
      \<and> \<not> isl (extract_tables page))"

subsection \<open>Example inputs\<close>

definition unreadable_pdf :: "unit pdf_file" where
  "unreadable_pdf =
     \<lparr> pdfplumber_open = Inl (Exception ''no pdf''),
       PdfReader_pages = Inl (Exception ''no pdf'') \<rparr>"

definition scanned_pdf :: "unit pdf_file" where
  "scanned_pdf =
     \<lparr> pdfplumber_open = Inl (Exception ''layout''),
       PdfReader_pages = Inr [Inr ''Hello''] \<rparr>"

definition blank_pdf :: "unit pdf_file" where
  "blank_pdf =
     \<lparr> pdfplumber_open =
         Inr [\<lparr> extract_text = Inr None, extract_tables = Inr [],
                plumber_width = (), plumber_height = () \<rparr>,
              \<lparr> extract_text = Inr (Some []), extract_tables = Inr [],
                plumber_width = (), plumber_height = () \<rparr>],
       PdfReader_pages = Inr [Inr ''Hidden'', Inr ''Text''] \<rparr>"

definition broken_page_pdf :: "unit pdf_file" where
  "broken_page_pdf =
     \<lparr> pdfplumber_open =
         Inr [\<lparr> extract_text = Inr (Some ''Intro''), extract_tables = Inr [],
                plumber_width = (), plumber_height = () \<rparr>,
              \<lparr> extract_text = Inr (Some ''More''), extract_tables = Inl (Exception ''grid''),
                plumber_width = (), plumber_height = () \<rparr>],
       PdfReader_pages = Inr [Inr ''Intro'', Inl (Exception ''page 2'')] \<rparr>"

definition sample_text :: string where
  "sample_text =
     ''HELLO WORLD'' @ [newline] @
     ''Chapter 1'' @ [newline] @
     ''  not a heading '' @ [newline] @
     [newline] @
     ''This is a line with more than ten words in it to qualify as paragraph text here''
       @ [newline]"

definition sample_document :: "unit DocumentRecord" where
  "sample_document =
     \<lparr> total_pages = 2,
       full_text = sample_text,
       pages =
         [\<lparr> page_number = 1, page_text = ''HELLO WORLD'',
             tables = [[[Some ''a'', None]], [[Some ''b'']]],
             width = Some (), height = Some () \<rparr>,
          \<lparr> page_number = 2, page_text = ''Chapter 1'',
             tables = [[[Some ''c'']]],
             width = Some (), height = Some () \<rparr>] \<rparr>"

definition long_line :: string where
  "long_line = ''a b c d e f g h i j k''"

definition eight_paragraphs :: "unit DocumentRecord" where
  "eight_paragraphs =
     \<lparr> total_pages = 1,
       full_text = concat (replicate 8 (long_line @ [newline])),
       pages = [] \<rparr>"

definition eleven_headings :: "unit DocumentRecord" where
  "eleven_headings =
     \<lparr> total_pages = 1,
       full_text = concat (replicate 11 (''A'' @ [newline])),
       pages = [] \<rparr>"

section \<open>Properties of the string functions\<close>

lemmas char_class_defs =
  Py_UNICODE_ISSPACE_def Py_UNICODE_ISUPPER_def Py_UNICODE_ISLOWER_def newline_def

lemmas text_defs =
  stripped_lines_def split_lines_def strip_def split_def isupper_def istitle_def
  heading_candidate_def paragraph_candidate_def

lemma upper_not_lower: "Py_UNICODE_ISUPPER c \<Longrightarrow> \<not> Py_UNICODE_ISLOWER c"
  by (auto simp: Py_UNICODE_ISUPPER_def Py_UNICODE_ISLOWER_def Let_def)

text \<open>
  What the two loops of CPython decide. A string is upper case when it has an
  upper-case character and no lower-case one. It is title case when it has a cased
  character, every upper-case character is first or follows an uncased character, and
  every lower-case character follows a cased one: the list pairs each character with
  whether its predecessor is cased.
\<close>

lemma isupper_loop_iff:
  "isupper_loop s cased =
     ((cased \<or> list_ex Py_UNICODE_ISUPPER s) \<and> \<not> list_ex Py_UNICODE_ISLOWER s)"
  by (induction s arbitrary: cased) (auto simp: upper_not_lower)

lemma isupper_iff:
  "isupper s = (list_ex Py_UNICODE_ISUPPER s \<and> \<not> list_ex Py_UNICODE_ISLOWER s)"
  by (simp add: isupper_def isupper_loop_iff)

lemma istitle_loop_iff:
  "istitle_loop s cased prev =
     ((cased \<or> list_ex (\<lambda>c. Py_UNICODE_ISUPPER c \<or> Py_UNICODE_ISLOWER c) s) \<and>
      list_all (\<lambda>(p, c). if Py_UNICODE_ISUPPER c then \<not> p
                          else if Py_UNICODE_ISLOWER c then p else True)
        (zip (prev # map (\<lambda>c. Py_UNICODE_ISUPPER c \<or> Py_UNICODE_ISLOWER c) s) s))"
  by (induction s arbitrary: cased prev) (auto simp: upper_not_lower)

lemma istitle_iff:
  "istitle s =
     (list_ex (\<lambda>c. Py_UNICODE_ISUPPER c \<or> Py_UNICODE_ISLOWER c) s \<and>
      list_all (\<lambda>(p, c). if Py_UNICODE_ISUPPER c then \<not> p
                          else if Py_UNICODE_ISLOWER c then p else True)
        (zip (False # map (\<lambda>c. Py_UNICODE_ISUPPER c \<or> Py_UNICODE_ISLOWER c) s) s))"
  by (simp add: istitle_def istitle_loop_iff)

lemma split_whitespace_all_space:
  "list_all Py_UNICODE_ISSPACE s \<Longrightarrow> split_whitespace s [] = []"
  by (induction s) simp_all

lemma split_sep_pieces:
  "l \<in> set (split_sep sep s cur) \<Longrightarrow> set l \<subseteq> set s \<union> set cur"
  by (induction s arbitrary: cur) (fastforce split: if_splits)+

lemma strip_all_space: "list_all Py_UNICODE_ISSPACE l \<Longrightarrow> strip l = []"
  by (auto simp: strip_def dropWhile_eq_Nil_conv list_all_iff dest: set_dropWhileD)

lemma stripped_lines_Nil: "stripped_lines [] = []"
  by (simp add: stripped_lines_def split_lines_def strip_def)

lemma stripped_lines_all_space:
  assumes "list_all Py_UNICODE_ISSPACE s"
  shows "stripped_lines s = []"
proof -
  have "strip l = []" if "l \<in> set (split_lines s)" for l
  proof -
    from that have "set l \<subseteq> set s"
      using split_sep_pieces [of l newline s "[]"] by (simp add: split_lines_def)
    with assms have "list_all Py_UNICODE_ISSPACE l"
      by (auto simp: list_all_iff)
    then show ?thesis by (rule strip_all_space)
  qed
  then show ?thesis
    by (simp add: stripped_lines_def filter_empty_conv)
qed

section \<open>Properties of the loops\<close>

lemma classify_loop_acc:
  "classify_loop ls (hs, ps) =
     (hs @ filter heading_candidate (filter (\<lambda>line. line \<noteq> []) (map strip ls)),
      ps @ filter paragraph_candidate (filter (\<lambda>line. line \<noteq> []) (map strip ls)))"
proof (induction ls arbitrary: hs ps)
  case Nil
  show ?case by simp
next
  case (Cons l ls)
  show ?case
    by (simp add: Cons.IH Let_def heading_candidate_def paragraph_candidate_def)
qed

lemma classify_loop_lines:
  "classify_loop (split_lines s) ([], []) =
     (filter heading_candidate (stripped_lines s), filter paragraph_candidate (stripped_lines s))"
  by (simp add: classify_loop_acc stripped_lines_def)

lemma tables_loop_acc: "tables_loop ps acc = acc @ concat (map tables ps)"
  by (induction ps arbitrary: acc) simp_all

lemma pypdf2_loop_raises:
  "list_ex isl ps \<Longrightarrow> \<exists>e. pypdf2_loop ps acc = Inl e"
  by (induction ps arbitrary: acc) (auto split: sum.splits)

lemma pdfplumber_loop_raises:
  "list_ex (\<lambda>page. isl (extract_text page) \<or> isl (extract_tables page)) ps
   \<Longrightarrow> \<exists>e. pdfplumber_loop n ps (t, pd) = Inl e"
  by (induction ps arbitrary: n t pd) (auto split: sum.splits simp: Let_def)

lemma pdfplumber_loop_isl:
  "isl (pdfplumber_loop n ps (t, pd)) =
     list_ex (\<lambda>page. isl (extract_text page) \<or> isl (extract_tables page)) ps"
  by (induction ps arbitrary: n t pd) (auto split: sum.splits simp: Let_def)

lemma pypdf2_loop_isl: "isl (pypdf2_loop ps acc) = list_ex isl ps"
  by (induction ps arbitrary: acc) (auto split: sum.splits)

text \<open>Each page adds at least its newline to the text and one record to the pages.\<close>

lemma pdfplumber_loop_lengths:
  "pdfplumber_loop n ps (t, pd) = Inr (t', pd') \<Longrightarrow>
   length t + length ps \<le> length t' \<and> length pd' = length pd + length ps"
proof (induction ps arbitrary: n t pd)
  case Nil
  then show ?case by simp
next
  case (Cons p ps)
  then show ?case
    by (fastforce split: sum.splits simp: Let_def)
qed

lemma pdfplumber_loop_blank:
  "list_all yields_no_text ps \<Longrightarrow>
   (case pdfplumber_loop n ps (t, pd) of
      Inl e \<Rightarrow> False
    | Inr (t', pd') \<Rightarrow> t' = t @ replicate (length ps) newline)"
proof (induction ps arbitrary: n t pd)
  case Nil
  then show ?case by simp
next
  case (Cons p ps)
  from Cons.prems have rest: "list_all yields_no_text ps"
    by simp
  from Cons.prems obtain tbls where tbls: "extract_tables p = Inr tbls"
    by (cases "extract_tables p") (simp_all add: yields_no_text_def)
  from Cons.prems have blank: "extract_text p = Inr None \<or> extract_text p = Inr (Some [])"
    by (simp add: yields_no_text_def)
  define pd2 where
    "pd2 = pd @ [\<lparr> page_number = n, page_text = [],
                   tables = (if tbls \<noteq> [] then tbls else []),
                   width = Some (plumber_width p), height = Some (plumber_height p) \<rparr>]"
  have step: "pdfplumber_loop n (p # ps) (t, pd) = pdfplumber_loop (n + 1) ps (t @ [newline], pd2)"
    using blank tbls by (auto simp: Let_def pd2_def)
  have "case pdfplumber_loop (n + 1) ps (t @ [newline], pd2) of
          Inl e \<Rightarrow> False
        | Inr (t', pd') \<Rightarrow> t' = (t @ [newline]) @ replicate (length ps) newline"
    by (rule Cons.IH [OF rest])
  then show ?case
    unfolding step
    by (simp add: replicate_app_Cons_same split: sum.splits prod.splits)
qed

section \<open>Properties of the extraction functions\<close>

lemma pdfplumber_raises_sentinel:
  assumes "pdfplumber_raises f"
  shows "extract_text_with_pdfplumber f = \<lparr> total_pages = 0, full_text = [], pages = [] \<rparr>"
proof (cases "pdfplumber_open f")
  case (Inl e)
  then show ?thesis
    by (simp add: extract_text_with_pdfplumber_def pdfplumber_try_def)
next
  case (Inr pdf_pages)
  with assms have "list_ex (\<lambda>page. isl (extract_text page) \<or> isl (extract_tables page)) pdf_pages"
    by (simp add: pdfplumber_raises_def)
  then obtain e where "pdfplumber_loop 1 pdf_pages ([], []) = Inl e"
    using pdfplumber_loop_raises by blast
  with Inr show ?thesis
    by (simp add: extract_text_with_pdfplumber_def pdfplumber_try_def)
qed

lemma pypdf2_raises_empty:
  assumes "pypdf2_raises f"
  shows "extract_text_with_pypdf2 f = []"
proof (cases "PdfReader_pages f")
  case (Inl e)
  then show ?thesis
    by (simp add: extract_text_with_pypdf2_def pypdf2_try_def)
next
  case (Inr reader_pages)
  with assms have "list_ex isl reader_pages"
    by (simp add: pypdf2_raises_def)
  then obtain e where "pypdf2_loop reader_pages [] = Inl e"
    using pypdf2_loop_raises by blast
  with Inr show ?thesis
    by (simp add: extract_text_with_pypdf2_def pypdf2_try_def)
qed

lemma primary_empty_text:
  "full_text (extract_text_with_pdfplumber f) = [] \<Longrightarrow>
   total_pages (extract_text_with_pdfplumber f) = 0 \<and> pages (extract_text_with_pdfplumber f) = []"
  by (auto simp: extract_text_with_pdfplumber_def pdfplumber_try_def
      split: sum.splits dest!: pdfplumber_loop_lengths)

lemma primary_blank_pages:
  assumes "pdfplumber_open f = Inr ps" and "list_all yields_no_text ps"
  shows "full_text (extract_text_with_pdfplumber f) = replicate (length ps) newline"
  using assms pdfplumber_loop_blank [where ps = ps and n = 1 and t = "[]" and pd = "[]"]
  by (simp add: extract_text_with_pdfplumber_def pdfplumber_try_def split: sum.splits prod.splits)

lemma extract_pdf_data_fallback:
  "full_text (extract_text_with_pdfplumber f) = [] \<Longrightarrow>
   extract_pdf_data f =
     (\<lparr> total_pages = 1, full_text = extract_text_with_pypdf2 f,
        pages = [\<lparr> page_number = 1, page_text = extract_text_with_pypdf2 f, tables = [],
                   width = None, height = None \<rparr>] \<rparr>,
      \<lparr> pdfplumber_calls = 1, pypdf2_calls = 1 \<rparr>)"
  by (simp add: extract_pdf_data_def Let_def)

lemma extract_pdf_data_primary:
  "full_text (extract_text_with_pdfplumber f) \<noteq> [] \<Longrightarrow>
   extract_pdf_data f =
     (extract_text_with_pdfplumber f, \<lparr> pdfplumber_calls = 1, pypdf2_calls = 0 \<rparr>)"
  by (simp add: extract_pdf_data_def Let_def)

section \<open>Properties of the analyzer\<close>

lemma analyze_empty:
  "full_text d = [] \<Longrightarrow>
   analyze_document_structure d now =
     \<lparr> document_stats =
         \<lparr> stats_total_pages = 0, word_count = 0, character_count = 0,
           paragraph_count = 0, table_count = 0 \<rparr>,
       content_structure = \<lparr> headings = [], paragraphs = [], structure_tables = [] \<rparr>,
       metadata = \<lparr> extraction_method = ''failed'', processing_timestamp = now \<rparr> \<rparr>"
  by (simp add: analyze_document_structure_def)

lemma analyze_nonempty:
  "full_text d \<noteq> [] \<Longrightarrow>
   analyze_document_structure d now =
     \<lparr> document_stats =
         \<lparr> stats_total_pages = total_pages d,
           word_count = int (length (split (full_text d))),
           character_count = int (length (full_text d)),
           paragraph_count =
             int (length (filter paragraph_candidate (stripped_lines (full_text d)))),
           table_count = int (length (concat (map tables (pages d)))) \<rparr>,
       content_structure =
         \<lparr> headings = take 10 (filter heading_candidate (stripped_lines (full_text d))),
           paragraphs = take 5 (filter paragraph_candidate (stripped_lines (full_text d))),
           structure_tables = concat (map tables (pages d)) \<rparr>,
       metadata = \<lparr> extraction_method = ''pdfplumber'', processing_timestamp = now \<rparr> \<rparr>"
  by (simp add: analyze_document_structure_def classify_loop_lines tables_loop_acc Let_def)

text \<open>
  A record the extraction part hands to the analyzer has no table when its text is
  empty: it is then the record of the fallback, whose one page has none.
\<close>

lemma extract_pdf_data_empty_text_no_tables:
  "full_text (fst (extract_pdf_data f)) = [] \<Longrightarrow>
   \<forall>page \<in> set (pages (fst (extract_pdf_data f))). tables page = []"
  by (cases "full_text (extract_text_with_pdfplumber f) = []")
     (simp_all add: extract_pdf_data_fallback extract_pdf_data_primary)

lemma analyze_extraction_method:
  "extraction_method (metadata (analyze_document_structure d now)) =
     (if full_text d = [] then ''failed'' else ''pdfplumber'')"
  by (cases "full_text d = []") (simp_all add: analyze_empty analyze_nonempty)

lemma analyze_tables:
  assumes "full_text d = [] \<Longrightarrow> \<forall>page \<in> set (pages d). tables page = []"
  shows "table_count (document_stats (analyze_document_structure d now)) =
           int (sum_list (map (\<lambda>page. length (tables page)) (pages d)))
         \<and> structure_tables (content_structure (analyze_document_structure d now)) =
           concat (map tables (pages d))"
proof (cases "full_text d = []")
  case True
  with assms have "\<forall>page \<in> set (pages d). tables page = []"
    by simp
  then have "concat (map tables (pages d)) = []"
    by simp
  with True show ?thesis
    by (simp add: analyze_empty length_concat)
next
  case False
  then show ?thesis
    by (simp add: analyze_nonempty length_concat comp_def)
qed

section \<open>The claims\<close>

subsection \<open>C1: the classification of a line\<close>

text \<open>
  Claim C1, as the specification states it: a stripped non-empty line is a heading
  candidate exactly when it has at most 10 tokens and is all upper case or in title
  case, where title case means that every word starts with an upper-case letter and
  the rest of the word is lower case. The line \<open>Chapter 1\<close> refutes this reading: the
  loop appends it to the headings, it is not upper case, and its second word starts
  with a digit.
\<close>

theorem heading_title_case_counterexample:
  "''Chapter 1'' \<in> set (fst (classify_loop (split_lines (''Chapter 1'' @ [newline])) ([], [])))
   \<and> length (split ''Chapter 1'') \<le> 10
   \<and> \<not> isupper ''Chapter 1''
   \<and> \<not> spec_title_case ''Chapter 1''"
  by (simp add: spec_title_case_def text_defs char_class_defs)

text \<open>
  Claim C1, amended: the loop over the lines of a text collects, in line order, as
  headings the stripped non-empty lines with at most 10 tokens for which \<open>isupper\<close> or
  \<open>istitle\<close> of Python holds, and as paragraphs those with more than 10 tokens. So a
  stripped non-empty line is among the headings exactly when it passes the first test,
  among the paragraphs exactly when it has more than 10 tokens, and a line with at most
  10 tokens that is neither upper case nor title case is in neither list. Title case is
  that of \<open>istitle\<close> (lemma \<open>istitle_iff\<close>): words are runs of cased characters, so a
  digit or a punctuation mark ends a word and a word without letters is no obstacle.
\<close>

theorem line_classification:
  "classify_loop (split_lines s) ([], []) =
     (filter heading_candidate (stripped_lines s), filter paragraph_candidate (stripped_lines s))
   \<and> (\<forall>line \<in> set (stripped_lines s).
        (line \<in> set (fst (classify_loop (split_lines s) ([], []))) \<longleftrightarrow>
           length (split line) \<le> 10 \<and> (isupper line \<or> istitle line))
      \<and> (line \<in> set (snd (classify_loop (split_lines s) ([], []))) \<longleftrightarrow>
           length (split line) > 10)
      \<and> (length (split line) \<le> 10 \<and> \<not> isupper line \<and> \<not> istitle line \<longrightarrow>
           line \<notin> set (fst (classify_loop (split_lines s) ([], [])))
           \<and> line \<notin> set (snd (classify_loop (split_lines s) ([], [])))))"
  by (auto simp: classify_loop_lines heading_candidate_def paragraph_candidate_def)

theorem line_classification_witness:
  "classify_loop (split_lines sample_text) ([], []) =
     ([''HELLO WORLD'', ''Chapter 1''],
      [''This is a line with more than ten words in it to qualify as paragraph text here''])
   \<and> ''not a heading'' \<in> set (stripped_lines sample_text)
   \<and> length (split ''not a heading'') \<le> 10
   \<and> \<not> isupper ''not a heading''
   \<and> \<not> istitle ''not a heading''
   \<and> ''not a heading'' \<notin> set (fst (classify_loop (split_lines sample_text) ([], [])))
   \<and> ''not a heading'' \<notin> set (snd (classify_loop (split_lines sample_text) ([], [])))"
proof -
  have lines: "stripped_lines sample_text =
      [''HELLO WORLD'', ''Chapter 1'', ''not a heading'',
       ''This is a line with more than ten words in it to qualify as paragraph text here'']"
    by (simp add: sample_text_def text_defs char_class_defs)
  have tests: "length (split ''not a heading'') \<le> 10 \<and> \<not> isupper ''not a heading''
      \<and> \<not> istitle ''not a heading''"
    by (simp add: text_defs char_class_defs)
  have h: "heading_candidate ''HELLO WORLD'' \<and> heading_candidate ''Chapter 1''
      \<and> \<not> heading_candidate ''not a heading''
      \<and> \<not> heading_candidate ''This is a line with more than ten words in it to qualify as paragraph text here''"
    by (simp add: text_defs char_class_defs)
  have p: "\<not> paragraph_candidate ''HELLO WORLD'' \<and> \<not> paragraph_candidate ''Chapter 1''
      \<and> \<not> paragraph_candidate ''not a heading''
      \<and> paragraph_candidate ''This is a line with more than ten words in it to qualify as paragraph text here''"
    by (simp add: text_defs char_class_defs)
  from line_classification [of sample_text] lines tests h p show ?thesis
    by simp
qed

subsection \<open>C2: the summary of an empty text\<close>

text \<open>
  Claim C2: for a record whose \<open>full_text\<close> is empty the analyzer returns the summary
  with every count zero, the three lists empty and the extraction method \<open>failed\<close>.
\<close>

theorem empty_text_summary:
  "full_text d = [] \<Longrightarrow>
   document_stats (analyze_document_structure d now) =
     \<lparr> stats_total_pages = 0, word_count = 0, character_count = 0,
       paragraph_count = 0, table_count = 0 \<rparr>
   \<and> content_structure (analyze_document_structure d now) =
     \<lparr> headings = [], paragraphs = [], structure_tables = [] \<rparr>
   \<and> extraction_method (metadata (analyze_document_structure d now)) = ''failed''"
  by (simp add: analyze_empty)

theorem empty_text_summary_witness:
  "full_text (fst (extract_pdf_data unreadable_pdf)) = []
   \<and> document_stats (analyze_document_structure (fst (extract_pdf_data unreadable_pdf)) (0::int)) =
     \<lparr> stats_total_pages = 0, word_count = 0, character_count = 0,
       paragraph_count = 0, table_count = 0 \<rparr>
   \<and> content_structure (analyze_document_structure (fst (extract_pdf_data unreadable_pdf)) (0::int)) =
     \<lparr> headings = [], paragraphs = [], structure_tables = [] \<rparr>
   \<and> extraction_method (metadata (analyze_document_structure (fst (extract_pdf_data unreadable_pdf)) (0::int))) = ''failed''"
proof -
  have empty: "full_text (fst (extract_pdf_data unreadable_pdf)) = []"
    by (simp add: extract_pdf_data_def extract_text_with_pdfplumber_def pdfplumber_try_def
        extract_text_with_pypdf2_def pypdf2_try_def unreadable_pdf_def)
  from empty empty_text_summary [OF empty, of "0::int"] show ?thesis
    by simp
qed

subsection \<open>C3: the failure sentinel\<close>

text \<open>
  Claim C3, as the specification states it: a record handed to the analyzer with an
  empty \<open>full_text\<close> has \<open>total_pages\<close> 0 and no pages. A file that neither backend can
  read refutes it: the record of the fallback has an empty text, \<open>total_pages\<close> 1 and
  one page.
\<close>

theorem failure_sentinel_counterexample:
  "full_text (fst (extract_pdf_data unreadable_pdf)) = []
   \<and> total_pages (fst (extract_pdf_data unreadable_pdf)) = 1
   \<and> length (pages (fst (extract_pdf_data unreadable_pdf))) = 1"
  by (simp add: extract_pdf_data_def extract_text_with_pdfplumber_def pdfplumber_try_def
      extract_text_with_pypdf2_def pypdf2_try_def unreadable_pdf_def)

text \<open>
  Claim C3, amended: the record the primary path returns has \<open>total_pages\<close> 0 and no
  pages whenever its \<open>full_text\<close> is empty; the record handed to the analyzer with an
  empty \<open>full_text\<close> is the record of the fallback, with \<open>total_pages\<close> 1 and the single
  page numbered 1, of empty text and without tables.
\<close>

theorem failure_sentinel_primary_path:
  "(full_text (extract_text_with_pdfplumber f) = [] \<longrightarrow>
      total_pages (extract_text_with_pdfplumber f) = 0
      \<and> pages (extract_text_with_pdfplumber f) = [])
   \<and> (full_text (fst (extract_pdf_data f)) = [] \<longrightarrow>
      total_pages (fst (extract_pdf_data f)) = 1
      \<and> pages (fst (extract_pdf_data f)) =
          [\<lparr> page_number = 1, page_text = [], tables = [], width = None, height = None \<rparr>])"
proof (cases "full_text (extract_text_with_pdfplumber f) = []")
  case True
  then show ?thesis
    using primary_empty_text [of f] by (auto simp: extract_pdf_data_fallback)
next
  case False
  then show ?thesis
    by (simp add: extract_pdf_data_primary)
qed

theorem failure_sentinel_primary_path_witness:
  "full_text (extract_text_with_pdfplumber unreadable_pdf) = []
   \<and> total_pages (extract_text_with_pdfplumber unreadable_pdf) = 0
   \<and> pages (extract_text_with_pdfplumber unreadable_pdf) = []
   \<and> full_text (fst (extract_pdf_data unreadable_pdf)) = []
   \<and> total_pages (fst (extract_pdf_data unreadable_pdf)) = 1
   \<and> pages (fst (extract_pdf_data unreadable_pdf)) =
       [\<lparr> page_number = 1, page_text = [], tables = [], width = None, height = None \<rparr>]"
proof -
  have primary: "full_text (extract_text_with_pdfplumber unreadable_pdf) = []"
    by (simp add: extract_text_with_pdfplumber_def pdfplumber_try_def unreadable_pdf_def)
  have handed: "full_text (fst (extract_pdf_data unreadable_pdf)) = []"
    by (simp add: extract_pdf_data_def extract_text_with_pdfplumber_def pdfplumber_try_def
        extract_text_with_pypdf2_def pypdf2_try_def unreadable_pdf_def)
  from primary handed failure_sentinel_primary_path [of unreadable_pdf] show ?thesis
    by simp
qed

subsection \<open>C4: when the fallback is called\<close>

text \<open>
  Claim C4: the fallback backend is called exactly when the \<open>full_text\<close> of the primary
  path is empty, which includes every run in which the primary path raised; with a
  non-empty text from the primary path it is not called. When it is called, the record
  has \<open>total_pages\<close> 1 and exactly one page, numbered 1 and without tables, whose text
  is the text of the fallback.
\<close>

theorem fallback_called_iff_primary_empty:
  "pypdf2_calls (snd (extract_pdf_data f)) =
     (if full_text (extract_text_with_pdfplumber f) = [] then 1 else 0)
   \<and> (pdfplumber_raises f \<longrightarrow> pypdf2_calls (snd (extract_pdf_data f)) = 1)
   \<and> (full_text (extract_text_with_pdfplumber f) \<noteq> [] \<longrightarrow>
        pypdf2_calls (snd (extract_pdf_data f)) = 0
        \<and> fst (extract_pdf_data f) = extract_text_with_pdfplumber f)
   \<and> (pypdf2_calls (snd (extract_pdf_data f)) = 1 \<longrightarrow>
        total_pages (fst (extract_pdf_data f)) = 1
        \<and> pages (fst (extract_pdf_data f)) =
            [\<lparr> page_number = 1, page_text = extract_text_with_pypdf2 f, tables = [],
               width = None, height = None \<rparr>])"
proof (cases "full_text (extract_text_with_pdfplumber f) = []")
  case True
  then show ?thesis
    by (simp add: extract_pdf_data_fallback)
next
  case False
  then have "\<not> pdfplumber_raises f"
    using pdfplumber_raises_sentinel [of f] by auto
  with False show ?thesis
    by (simp add: extract_pdf_data_primary)
qed

theorem fallback_called_iff_primary_empty_witness:
  "pdfplumber_raises broken_page_pdf
   \<and> pypdf2_calls (snd (extract_pdf_data broken_page_pdf)) = 1
   \<and> total_pages (fst (extract_pdf_data broken_page_pdf)) = 1
   \<and> pages (fst (extract_pdf_data broken_page_pdf)) =
       [\<lparr> page_number = 1, page_text = [], tables = [], width = None, height = None \<rparr>]"
proof -
  have raises: "pdfplumber_raises broken_page_pdf"
    by (simp add: pdfplumber_raises_def broken_page_pdf_def)
  have fallback: "extract_text_with_pypdf2 broken_page_pdf = []"
    by (simp add: extract_text_with_pypdf2_def pypdf2_try_def broken_page_pdf_def)
  from raises fallback fallback_called_iff_primary_empty [of broken_page_pdf] show ?thesis
    by simp
qed

subsection \<open>C5: the samples of headings and paragraphs\<close>

text \<open>
  Claim C5: for every record, the headings returned are the first 10 (or fewer) of the
  lines classified as headings, in line order, and the paragraphs returned the first 5
  (or fewer) of the lines classified as paragraphs; so there are never more than 10
  headings or more than 5 paragraphs.
\<close>

theorem headings_paragraphs_truncated:
  "headings (content_structure (analyze_document_structure d now)) =
     take 10 (fst (classify_loop (split_lines (full_text d)) ([], [])))
   \<and> paragraphs (content_structure (analyze_document_structure d now)) =
     take 5 (snd (classify_loop (split_lines (full_text d)) ([], [])))
   \<and> length (headings (content_structure (analyze_document_structure d now))) \<le> 10
   \<and> length (paragraphs (content_structure (analyze_document_structure d now))) \<le> 5"
proof (cases "full_text d = []")
  case True
  then show ?thesis
    by (simp add: analyze_empty classify_loop_lines stripped_lines_Nil)
next
  case False
  then show ?thesis
    by (simp add: analyze_nonempty classify_loop_lines)
qed

theorem headings_paragraphs_truncated_witness:
  "fst (classify_loop (split_lines (full_text eleven_headings)) ([], [])) = replicate 11 ''A''
   \<and> headings (content_structure (analyze_document_structure eleven_headings (0::int))) =
       replicate 10 ''A''
   \<and> paragraphs (content_structure (analyze_document_structure eleven_headings (0::int))) = []"
proof -
  have lines: "stripped_lines (full_text eleven_headings) = replicate 11 ''A''"
    by (simp add: eleven_headings_def text_defs char_class_defs numeral_eq_Suc)
  have tests: "heading_candidate ''A'' \<and> \<not> paragraph_candidate ''A''"
    by (simp add: text_defs char_class_defs)
  have "classify_loop (split_lines (full_text eleven_headings)) ([], []) = (replicate 11 ''A'', [])"
    by (simp add: classify_loop_lines lines tests)
  with headings_paragraphs_truncated [of eleven_headings "0::int"] show ?thesis
    by (simp add: numeral_eq_Suc)
qed

subsection \<open>C6: the paragraph count\<close>

text \<open>
  Claim C6: for every record, \<open>paragraph_count\<close> is the number of all the lines
  classified as paragraphs, also when the paragraphs returned are cut to 5: with 8 such
  lines the count is 8 and the sample has 5 entries.
\<close>

theorem paragraph_count_untruncated:
  "paragraph_count (document_stats (analyze_document_structure d now)) =
     int (length (snd (classify_loop (split_lines (full_text d)) ([], []))))"
proof (cases "full_text d = []")
  case True
  then show ?thesis
    by (simp add: analyze_empty classify_loop_lines stripped_lines_Nil)
next
  case False
  then show ?thesis
    by (simp add: analyze_nonempty classify_loop_lines)
qed

theorem paragraph_count_untruncated_witness:
  "snd (classify_loop (split_lines (full_text eight_paragraphs)) ([], [])) = replicate 8 long_line
   \<and> paragraph_count (document_stats (analyze_document_structure eight_paragraphs (0::int))) = 8
   \<and> length (paragraphs (content_structure (analyze_document_structure eight_paragraphs (0::int)))) = 5"
proof -
  have lines: "stripped_lines (full_text eight_paragraphs) = replicate 8 long_line"
    by (simp add: eight_paragraphs_def long_line_def text_defs char_class_defs numeral_eq_Suc)
  have tests: "paragraph_candidate long_line"
    by (simp add: long_line_def text_defs char_class_defs)
  have nonempty: "full_text eight_paragraphs \<noteq> []"
    by (simp add: eight_paragraphs_def long_line_def numeral_eq_Suc)
  have loop: "snd (classify_loop (split_lines (full_text eight_paragraphs)) ([], [])) =
      replicate 8 long_line"
    by (simp add: classify_loop_lines lines tests)
  have sample: "length (paragraphs (content_structure
      (analyze_document_structure eight_paragraphs (0::int)))) = 5"
    by (simp add: analyze_nonempty [OF nonempty] lines tests)
  from loop sample paragraph_count_untruncated [of eight_paragraphs "0::int"] show ?thesis
    by simp
qed

subsection \<open>C7: the tables\<close>

text \<open>
  Claim C7: \<open>table_count\<close> is the number of table grids summed over the pages, and the
  tables returned are all the grids of all the pages in page order, none cut off. This
  holds for every record that has no table when its text is empty: every record of the
  data model is such a record (it has no page then). It holds as well, without any
  condition, for the record that \<open>process_single_pdf\<close> hands to the analyzer.
\<close>

theorem tables_all_collected:
  "((full_text d = [] \<longrightarrow> (\<forall>page \<in> set (pages d). tables page = [])) \<longrightarrow>
      table_count (document_stats (analyze_document_structure d now)) =
        int (sum_list (map (\<lambda>page. length (tables page)) (pages d)))
      \<and> structure_tables (content_structure (analyze_document_structure d now)) =
        concat (map tables (pages d)))
   \<and> table_count (document_stats (process_single_pdf f now)) =
       int (sum_list (map (\<lambda>page. length (tables page)) (pages (fst (extract_pdf_data f)))))
   \<and> structure_tables (content_structure (process_single_pdf f now)) =
       concat (map tables (pages (fst (extract_pdf_data f))))"
  using analyze_tables [of d now]
    analyze_tables [OF extract_pdf_data_empty_text_no_tables, of f now]
  by (simp add: process_single_pdf_def)

theorem tables_all_collected_witness:
  "full_text sample_document \<noteq> []
   \<and> table_count (document_stats (analyze_document_structure sample_document (0::int))) = 3
   \<and> structure_tables (content_structure (analyze_document_structure sample_document (0::int))) =
       [[[Some ''a'', None]], [[Some ''b'']], [[Some ''c'']]]
   \<and> full_text (fst (extract_pdf_data unreadable_pdf)) = []
   \<and> length (pages (fst (extract_pdf_data unreadable_pdf))) = 1
   \<and> table_count (document_stats (process_single_pdf unreadable_pdf (0::int))) = 0
   \<and> structure_tables (content_structure (process_single_pdf unreadable_pdf (0::int))) = []"
proof -
  have nonempty: "full_text sample_document \<noteq> []"
    by (simp add: sample_document_def sample_text_def)
  have handed: "fst (extract_pdf_data unreadable_pdf) =
      \<lparr> total_pages = 1, full_text = [],
        pages = [\<lparr> page_number = 1, page_text = [], tables = [],
                   width = None, height = None \<rparr>] \<rparr>"
    by (simp add: extract_pdf_data_def extract_text_with_pdfplumber_def pdfplumber_try_def
        extract_text_with_pypdf2_def pypdf2_try_def unreadable_pdf_def)
  from tables_all_collected [of sample_document "0::int" unreadable_pdf] nonempty handed
  show ?thesis
    by (simp add: sample_document_def)
qed

subsection \<open>C8: the extraction method\<close>

text \<open>
  Claim C8: the extraction method of a summary is \<open>pdfplumber\<close> when the text of the
  record is not empty and \<open>failed\<close> when it is; no other value occurs. A text that came
  from the fallback backend is labelled \<open>pdfplumber\<close> too.
\<close>

theorem extraction_method_tag:
  "extraction_method (metadata (analyze_document_structure d now)) =
     (if full_text d = [] then ''failed'' else ''pdfplumber'')
   \<and> (pypdf2_calls (snd (extract_pdf_data f)) = 1 \<and> extract_text_with_pypdf2 f \<noteq> [] \<longrightarrow>
        extraction_method (metadata (process_single_pdf f now)) = ''pdfplumber'')"
proof -
  have "full_text (fst (extract_pdf_data f)) = extract_text_with_pypdf2 f"
    if "pypdf2_calls (snd (extract_pdf_data f)) = 1"
    using that
    by (cases "full_text (extract_text_with_pdfplumber f) = []")
       (simp_all add: extract_pdf_data_fallback extract_pdf_data_primary)
  then show ?thesis
    by (simp add: process_single_pdf_def analyze_extraction_method)
qed

theorem extraction_method_tag_witness:
  "pypdf2_calls (snd (extract_pdf_data scanned_pdf)) = 1
   \<and> extract_text_with_pypdf2 scanned_pdf = ''Hello'' @ [newline]
   \<and> extraction_method (metadata (process_single_pdf scanned_pdf (0::int))) = ''pdfplumber''
   \<and> extraction_method (metadata (analyze_document_structure sample_document (0::int))) =
       ''pdfplumber''"
proof -
  have calls: "pypdf2_calls (snd (extract_pdf_data scanned_pdf)) = 1"
    by (simp add: extract_pdf_data_def extract_text_with_pdfplumber_def pdfplumber_try_def
        scanned_pdf_def Let_def)
  have fallback: "extract_text_with_pypdf2 scanned_pdf = ''Hello'' @ [newline]"
    by (simp add: extract_text_with_pypdf2_def pypdf2_try_def scanned_pdf_def)
  have nonempty: "full_text sample_document \<noteq> []"
    by (simp add: sample_document_def sample_text_def)
  from calls fallback nonempty
    extraction_method_tag [of sample_document "0::int" scanned_pdf] show ?thesis
    by simp
qed

subsection \<open>C9: the extraction functions catch their exceptions\<close>

text \<open>
  Claim C9: neither extraction function lets an exception out. When a call of the
  primary backend raises (opening the file, or reading the text or the tables of a
  page), \<open>extract_text_with_pdfplumber\<close> returns the record with \<open>total_pages\<close> 0, the
  empty text and no pages; when a call of the fallback backend raises,
  \<open>extract_text_with_pypdf2\<close> returns the empty string.
\<close>

theorem extraction_exceptions_caught:
  "(pdfplumber_raises f \<longrightarrow>
      extract_text_with_pdfplumber f = \<lparr> total_pages = 0, full_text = [], pages = [] \<rparr>)
   \<and> (pypdf2_raises f \<longrightarrow> extract_text_with_pypdf2 f = [])
   \<and> (isl (pdfplumber_try f) \<longleftrightarrow> pdfplumber_raises f)
   \<and> (isl (pypdf2_try f) \<longleftrightarrow> pypdf2_raises f)"
proof -
  have primary: "isl (pdfplumber_try f) \<longleftrightarrow> pdfplumber_raises f"
  proof (cases "pdfplumber_open f")
    case (Inl e)
    then show ?thesis
      by (simp add: pdfplumber_try_def pdfplumber_raises_def)
  next
    case (Inr pdf_pages)
    then have "isl (pdfplumber_try f) = isl (pdfplumber_loop 1 pdf_pages ([], []))"
      by (simp add: pdfplumber_try_def split: sum.splits prod.splits)
    with Inr show ?thesis
      by (simp add: pdfplumber_raises_def pdfplumber_loop_isl)
  qed
  have fallback: "isl (pypdf2_try f) \<longleftrightarrow> pypdf2_raises f"
    by (cases "PdfReader_pages f")
       (simp_all add: pypdf2_try_def pypdf2_raises_def pypdf2_loop_isl)
  from primary fallback show ?thesis
    by (simp add: pdfplumber_raises_sentinel pypdf2_raises_empty)
qed

theorem extraction_exceptions_caught_witness:
  "pdfplumber_raises broken_page_pdf
   \<and> extract_text_with_pdfplumber broken_page_pdf =
       \<lparr> total_pages = 0, full_text = [], pages = [] \<rparr>
   \<and> pypdf2_raises broken_page_pdf
   \<and> extract_text_with_pypdf2 broken_page_pdf = []"
proof -
  have primary: "pdfplumber_raises broken_page_pdf"
    by (simp add: pdfplumber_raises_def broken_page_pdf_def)
  have fallback: "pypdf2_raises broken_page_pdf"
    by (simp add: pypdf2_raises_def broken_page_pdf_def)
  from primary fallback extraction_exceptions_caught [of broken_page_pdf] show ?thesis
    by simp
qed

subsection \<open>C10: a text of whitespace only\<close>

text \<open>
  Claim C10: a record whose text is not empty but has whitespace characters only is
  analyzed in the success branch: no word, no paragraph, no heading, the character
  count the length of the text, and the extraction method \<open>pdfplumber\<close>. The primary
  path produces such a text, one newline per page, for a file with at least one page
  whose pages all yield no text; the fallback backend is then not called.
\<close>

theorem whitespace_only_text:
  "(full_text d \<noteq> [] \<and> list_all Py_UNICODE_ISSPACE (full_text d) \<longrightarrow>
      word_count (document_stats (analyze_document_structure d now)) = 0
      \<and> paragraph_count (document_stats (analyze_document_structure d now)) = 0
      \<and> headings (content_structure (analyze_document_structure d now)) = []
      \<and> paragraphs (content_structure (analyze_document_structure d now)) = []
      \<and> character_count (document_stats (analyze_document_structure d now)) =
          int (length (full_text d))
      \<and> extraction_method (metadata (analyze_document_structure d now)) = ''pdfplumber'')
   \<and> (pdfplumber_open f = Inr ps \<and> ps \<noteq> [] \<and> list_all yields_no_text ps \<longrightarrow>
      full_text (extract_text_with_pdfplumber f) = replicate (length ps) newline
      \<and> full_text (extract_text_with_pdfplumber f) \<noteq> []
      \<and> list_all Py_UNICODE_ISSPACE (full_text (extract_text_with_pdfplumber f))
      \<and> pypdf2_calls (snd (extract_pdf_data f)) = 0
      \<and> fst (extract_pdf_data f) = extract_text_with_pdfplumber f)"
proof -
  have analysis: "full_text d \<noteq> [] \<and> list_all Py_UNICODE_ISSPACE (full_text d) \<longrightarrow>
      word_count (document_stats (analyze_document_structure d now)) = 0
      \<and> paragraph_count (document_stats (analyze_document_structure d now)) = 0
      \<and> headings (content_structure (analyze_document_structure d now)) = []
      \<and> paragraphs (content_structure (analyze_document_structure d now)) = []
      \<and> character_count (document_stats (analyze_document_structure d now)) =
          int (length (full_text d))
      \<and> extraction_method (metadata (analyze_document_structure d now)) = ''pdfplumber''"
    by (simp add: analyze_nonempty stripped_lines_all_space split_def
        split_whitespace_all_space)
  have extraction: "pdfplumber_open f = Inr ps \<and> ps \<noteq> [] \<and> list_all yields_no_text ps \<longrightarrow>
      full_text (extract_text_with_pdfplumber f) = replicate (length ps) newline
      \<and> full_text (extract_text_with_pdfplumber f) \<noteq> []
      \<and> list_all Py_UNICODE_ISSPACE (full_text (extract_text_with_pdfplumber f))
      \<and> pypdf2_calls (snd (extract_pdf_data f)) = 0
      \<and> fst (extract_pdf_data f) = extract_text_with_pdfplumber f"
  proof (intro impI, elim conjE)
    assume opened: "pdfplumber_open f = Inr ps" and nonempty_pages: "ps \<noteq> []"
      and blank: "list_all yields_no_text ps"
    from opened blank have newlines: "full_text (extract_text_with_pdfplumber f) =
        replicate (length ps) newline"
      by (rule primary_blank_pages)
    with nonempty_pages have nonempty: "full_text (extract_text_with_pdfplumber f) \<noteq> []"
      by simp
    have "Py_UNICODE_ISSPACE newline"
      by (simp add: char_class_defs)
    with newlines have "list_all Py_UNICODE_ISSPACE (full_text (extract_text_with_pdfplumber f))"
      by (simp add: list_all_iff)
    with newlines nonempty
    show "full_text (extract_text_with_pdfplumber f) = replicate (length ps) newline
      \<and> full_text (extract_text_with_pdfplumber f) \<noteq> []
      \<and> list_all Py_UNICODE_ISSPACE (full_text (extract_text_with_pdfplumber f))
      \<and> pypdf2_calls (snd (extract_pdf_data f)) = 0
      \<and> fst (extract_pdf_data f) = extract_text_with_pdfplumber f"
      by (simp add: extract_pdf_data_primary)
  qed
  from analysis extraction show ?thesis
    by (rule conjI)
qed

theorem whitespace_only_text_witness:
  "full_text (fst (extract_pdf_data blank_pdf)) = [newline, newline]
   \<and> pypdf2_calls (snd (extract_pdf_data blank_pdf)) = 0
   \<and> document_stats (process_single_pdf blank_pdf (0::int)) =
       \<lparr> stats_total_pages = 2, word_count = 0, character_count = 2,
         paragraph_count = 0, table_count = 0 \<rparr>
   \<and> headings (content_structure (process_single_pdf blank_pdf (0::int))) = []
   \<and> paragraphs (content_structure (process_single_pdf blank_pdf (0::int))) = []
   \<and> extraction_method (metadata (process_single_pdf blank_pdf (0::int))) = ''pdfplumber''"
proof -
  have opened: "pdfplumber_open blank_pdf =
      Inr [\<lparr> extract_text = Inr None, extract_tables = Inr [],
             plumber_width = (), plumber_height = () \<rparr>,
           \<lparr> extract_text = Inr (Some []), extract_tables = Inr [],
             plumber_width = (), plumber_height = () \<rparr>]"
    by (simp add: blank_pdf_def)
  have blank: "list_all yields_no_text
      [\<lparr> extract_text = Inr None, extract_tables = Inr [],
         plumber_width = (), plumber_height = () \<rparr>,
       \<lparr> extract_text = Inr (Some []), extract_tables = Inr ([] :: table list),
         plumber_width = (), plumber_height = () \<rparr>]"
    by (simp add: yields_no_text_def)
  note inst = whitespace_only_text [of "fst (extract_pdf_data blank_pdf)" "0::int" blank_pdf
      "[\<lparr> extract_text = Inr None, extract_tables = Inr [],
         plumber_width = (), plumber_height = () \<rparr>,
       \<lparr> extract_text = Inr (Some []), extract_tables = Inr [],
         plumber_width = (), plumber_height = () \<rparr>]"]
  from inst opened blank have primary:
    "full_text (extract_text_with_pdfplumber blank_pdf) = [newline, newline]
     \<and> pypdf2_calls (snd (extract_pdf_data blank_pdf)) = 0
     \<and> fst (extract_pdf_data blank_pdf) = extract_text_with_pdfplumber blank_pdf"
    by (simp add: numeral_eq_Suc)
  have space: "Py_UNICODE_ISSPACE newline"
    by (simp add: char_class_defs)
  have pages: "total_pages (extract_text_with_pdfplumber blank_pdf) = 2
      \<and> concat (map tables (pages (extract_text_with_pdfplumber blank_pdf))) = []"
    by (simp add: extract_text_with_pdfplumber_def pdfplumber_try_def blank_pdf_def Let_def)
  from inst primary space pages show ?thesis
    by (simp add: process_single_pdf_def analyze_nonempty)
qed

end
